theory Spec2Isabelle
  imports Main "HOL-Library.AList" "HOL-Library.Word"
begin

section \<open>Values of the program\<close>

text \<open>
  The tools of \<^verbatim>\<open>simple_calendar.py\<close> work on decoded JSON: the payloads of the
  calendar and of the ticket vendor, and the dictionaries the tools return. A dictionary
  is an association list in insertion order, read by its first binding of a key. A float
  is its IEEE-754 bit pattern, which is all the program needs of it (it is passed through
  and tested for truth).
\<close>

datatype json =
    JNull
  | JBool bool
  | JInt int
  | JFloat "64 word"
  | JStr string
  | JList "json list"
  | JObj "(string \<times> json) list"

text \<open>The exceptions that the modelled code paths can raise.\<close>

datatype exn =
    ValueError
  | TypeError
  | AttributeError
  | KeyError
  | IndexError
  | OverflowError
  | RequestError
  | HTTPStatusError
  | JSONDecodeError

text \<open>A raise is \<open>Inl\<close>; sequencing stops at the first one.\<close>

fun bindE :: "exn + 'a \<Rightarrow> ('a \<Rightarrow> exn + 'b) \<Rightarrow> exn + 'b" where
  "bindE (Inl e) f = Inl e"
| "bindE (Inr x) f = f x"

subsection \<open>Python's operations on decoded JSON\<close>

text \<open>\<^verbatim>\<open>bool(v)\<close>: the truth value of an object.\<close>

fun py_truthy :: "json \<Rightarrow> bool" where
  "py_truthy JNull = False"
| "py_truthy (JBool b) = b"
| "py_truthy (JInt n) = (n \<noteq> 0)"
| "py_truthy (JFloat w) = (push_bit 1 w \<noteq> 0)"
| "py_truthy (JStr s) = (s \<noteq> [])"
| "py_truthy (JList xs) = (xs \<noteq> [])"
| "py_truthy (JObj kvs) = (kvs \<noteq> [])"

text \<open>\<^verbatim>\<open>d.get(k, default)\<close>: only a dictionary has the method.\<close>

fun py_get :: "json \<Rightarrow> string \<Rightarrow> json \<Rightarrow> exn + json" where
  "py_get (JObj kvs) k d = Inr (case map_of kvs k of None \<Rightarrow> d | Some v \<Rightarrow> v)"
| "py_get _ k d = Inl AttributeError"

text \<open>\<^verbatim>\<open>k in s\<close> for strings: \<open>k\<close> occurs in \<open>s\<close> as a contiguous block.\<close>

fun py_substring :: "string \<Rightarrow> string \<Rightarrow> bool" where
  "py_substring k [] = (k = [])"
| "py_substring k (c # cs) = (take (length k) (c # cs) = k \<or> py_substring k cs)"

text \<open>\<^verbatim>\<open>k in v\<close> with a string \<open>k\<close>: key of a dictionary, element of a list,
  substring of a string; anything else is not a container.\<close>

fun py_contains :: "string \<Rightarrow> json \<Rightarrow> exn + bool" where
  "py_contains k (JObj kvs) = Inr (k \<in> set (map fst kvs))"
| "py_contains k (JList xs) = Inr (JStr k \<in> set xs)"
| "py_contains k (JStr s) = Inr (py_substring k s)"
| "py_contains k _ = Inl TypeError"

text \<open>\<^verbatim>\<open>v[k]\<close> with a string \<open>k\<close>.\<close>

fun py_getitem :: "json \<Rightarrow> string \<Rightarrow> exn + json" where
  "py_getitem (JObj kvs) k = (case map_of kvs k of None \<Rightarrow> Inl KeyError | Some v \<Rightarrow> Inr v)"
| "py_getitem _ k = Inl TypeError"

text \<open>\<^verbatim>\<open>v[0]\<close>: the first element of a list, the first character of a string; a
  decoded JSON object has string keys only, so \<open>0\<close> is a missing key.\<close>

fun py_first :: "json \<Rightarrow> exn + json" where
  "py_first (JList []) = Inl IndexError"
| "py_first (JList (x # xs)) = Inr x"
| "py_first (JStr []) = Inl IndexError"
| "py_first (JStr (c # cs)) = Inr (JStr [c])"
| "py_first (JObj kvs) = Inl KeyError"
| "py_first _ = Inl TypeError"


text \<open>\<^verbatim>\<open>for x in v\<close>: the elements of a list, the keys of a dictionary, the
  characters of a string.\<close>

fun py_iter :: "json \<Rightarrow> exn + json list" where
  "py_iter (JList xs) = Inr xs"
| "py_iter (JObj kvs) = Inr (map JStr (remdups (map fst kvs)))"
| "py_iter (JStr s) = Inr (map (\<lambda>c. JStr [c]) s)"
| "py_iter _ = Inl TypeError"

text \<open>\<^verbatim>\<open>len(v)\<close>.\<close>

fun py_len :: "json \<Rightarrow> exn + nat" where
  "py_len (JList xs) = Inr (length xs)"
| "py_len (JObj kvs) = Inr (length (remdups (map fst kvs)))"
| "py_len (JStr s) = Inr (length s)"
| "py_len _ = Inl TypeError"

text \<open>\<^verbatim>\<open>sep.join(parts)\<close>: every part must be a string.\<close>

fun str_parts :: "json list \<Rightarrow> exn + string list" where
  "str_parts [] = Inr []"
| "str_parts (JStr s # vs) = bindE (str_parts vs) (\<lambda>ss. Inr (s # ss))"
| "str_parts (_ # vs) = Inl TypeError"

fun intersperse_sep :: "string \<Rightarrow> string list \<Rightarrow> string" where
  "intersperse_sep sep [] = []"
| "intersperse_sep sep [s] = s"
| "intersperse_sep sep (s # t # ss) = s @ sep @ intersperse_sep sep (t # ss)"

definition py_join :: "string \<Rightarrow> json list \<Rightarrow> exn + json" where
  "py_join sep parts = bindE (str_parts parts) (\<lambda>ss. Inr (JStr (intersperse_sep sep ss)))"

subsection \<open>Dates and times\<close>

text \<open>
  A \<^verbatim>\<open>datetime\<close>: the wall-clock fields as microseconds since
  0001-01-01T00:00:00, and the UTC offset of its \<^verbatim>\<open>tzinfo\<close> in microseconds
  (\<open>None\<close> for a naive value). An aware value denotes the instant \<open>ticks - offset\<close>.
\<close>

record datetime =
  ticks :: int
  tzoffset :: "int option"

definition instant :: "datetime \<Rightarrow> int" where
  "instant d = ticks d - (case tzoffset d of None \<Rightarrow> 0 | Some off \<Rightarrow> off)"


text \<open>\<^verbatim>\<open>d.replace(tzinfo=timezone.utc)\<close> keeps the fields and relabels them as UTC.\<close>

definition replace_tzinfo_utc :: "datetime \<Rightarrow> datetime" where
  "replace_tzinfo_utc d = d\<lparr>tzoffset := Some 0\<rparr>"

text \<open>\<^verbatim>\<open>a <= b\<close> and \<^verbatim>\<open>a < b\<close>: a naive and an aware value do not compare.\<close>

definition dt_le :: "datetime \<Rightarrow> datetime \<Rightarrow> exn + bool" where
  "dt_le a b =
     (case (tzoffset a, tzoffset b) of
        (None, None) \<Rightarrow> Inr (ticks a \<le> ticks b)
      | (Some x, Some y) \<Rightarrow> Inr (ticks a - x \<le> ticks b - y)
      | _ \<Rightarrow> Inl TypeError)"

definition dt_lt :: "datetime \<Rightarrow> datetime \<Rightarrow> exn + bool" where
  "dt_lt a b =
     (case (tzoffset a, tzoffset b) of
        (None, None) \<Rightarrow> Inr (ticks a < ticks b)
      | (Some x, Some y) \<Rightarrow> Inr (ticks a - x < ticks b - y)
      | _ \<Rightarrow> Inl TypeError)"

text \<open>\<^verbatim>\<open>datetime.max\<close> is 9999-12-31T23:59:59.999999, day 3652059 of the calendar.\<close>

definition max_ticks :: int where
  "max_ticks = 3652059 * 86400000000 - 1"

definition hours :: "int \<Rightarrow> int" where
  "hours h = h * 3600000000"

text \<open>\<^verbatim>\<open>d + timedelta(hours=h)\<close>: the fields move, the zone stays; a result
  outside the calendar raises.\<close>

definition dt_add_hours :: "datetime \<Rightarrow> int \<Rightarrow> exn + datetime" where
  "dt_add_hours d h =
     (let t = ticks d + hours h
      in if t < 0 \<or> max_ticks < t then Inl OverflowError else Inr (d\<lparr>ticks := t\<rparr>))"

text \<open>\<^verbatim>\<open>min(xs)\<close> and \<^verbatim>\<open>max(xs)\<close>: the first extremal element, found by
  comparing each element with the best one so far.\<close>

fun min_from :: "datetime \<Rightarrow> datetime list \<Rightarrow> exn + datetime" where
  "min_from cur [] = Inr cur"
| "min_from cur (x # xs) = bindE (dt_lt x cur) (\<lambda>b. min_from (if b then x else cur) xs)"

fun max_from :: "datetime \<Rightarrow> datetime list \<Rightarrow> exn + datetime" where
  "max_from cur [] = Inr cur"
| "max_from cur (x # xs) = bindE (dt_lt cur x) (\<lambda>b. max_from (if b then x else cur) xs)"

definition py_min :: "datetime list \<Rightarrow> exn + datetime" where
  "py_min xs = (case xs of [] \<Rightarrow> Inl ValueError | x # rest \<Rightarrow> min_from x rest)"

definition py_max :: "datetime list \<Rightarrow> exn + datetime" where
  "py_max xs = (case xs of [] \<Rightarrow> Inl ValueError | x # rest \<Rightarrow> max_from x rest)"

subsection \<open>The library and the world\<close>

text \<open>
  An HTTP request as the program builds it, and the response it reads: the status code,
  what \<^verbatim>\<open>raise_for_status()\<close> raises and what \<^verbatim>\<open>json()\<close> returns.
\<close>

record request =
  req_method :: string
  req_url :: string
  req_headers :: "(string \<times> string) list"
  req_params :: "(string \<times> json) list option"
  req_json :: "json option"
  req_timeout :: "int option"

record response =
  status_code :: nat
  raise_for_status :: "exn option"
  json_body :: "exn + json"

text \<open>
  What the program calls and does not define is a parameter of the model:
  \<^verbatim>\<open>datetime.fromisoformat\<close> (\<open>None\<close> is its \<^verbatim>\<open>ValueError\<close>),
  the text \<^verbatim>\<open>strftime("%Y-%m-%dT%H:%M:%S")\<close> gives the wall-clock fields,
  \<^verbatim>\<open>isoformat()\<close>, the text an f-string gives a value that is not a string,
  \<^verbatim>\<open>str.strip()\<close>, the value of the environment variable
  \<^verbatim>\<open>ACCESS_TOKEN\<close>, and the remote server that answers a request or fails.
\<close>

record pylib =
  fromisoformat :: "string \<Rightarrow> datetime option"
  strftime_fields :: "int \<Rightarrow> string"
  isoformat :: "datetime \<Rightarrow> string"
  str_of :: "json \<Rightarrow> string"
  str_strip :: "string \<Rightarrow> string"
  access_token :: "string option"
  http_send :: "request \<Rightarrow> exn + response"

text \<open>\<^verbatim>\<open>f"{v}"\<close>: a string is inserted as it is.\<close>

definition fmt :: "pylib \<Rightarrow> json \<Rightarrow> string" where
  "fmt L v = (case v of JStr s \<Rightarrow> s | _ \<Rightarrow> str_of L v)"

definition parse_iso :: "pylib \<Rightarrow> string \<Rightarrow> exn + datetime" where
  "parse_iso L s = (case fromisoformat L s of None \<Rightarrow> Inl ValueError | Some d \<Rightarrow> Inr d)"

text \<open>\<^verbatim>\<open>d.strftime("%Y-%m-%dT%H:%M:%SZ")\<close>: the format has no directive for the
  zone, so the text is made of the wall-clock fields of \<open>d\<close>, whatever its offset is, and
  the letter \<^verbatim>\<open>Z\<close> of the format follows them.\<close>

definition strftime_z :: "pylib \<Rightarrow> datetime \<Rightarrow> string" where
  "strftime_z L d = strftime_fields L (ticks d) @ ''Z''"

section \<open>The date range parser\<close>

text \<open>\<^verbatim>\<open>parse_event_datetime\<close>: the pair \<open>(start, end)\<close> of an event of the ticket
  vendor, \<open>(None, None)\<close> when it has no start date.\<close>

definition parse_event_datetime ::
  "pylib \<Rightarrow> json \<Rightarrow> exn + (datetime option \<times> datetime option)" where
  "parse_event_datetime L event =
     bindE (py_get event ''dates'' (JObj [])) (\<lambda>dates.
     bindE (py_get dates ''start'' (JObj [])) (\<lambda>dates_info.
     bindE (py_get dates_info ''localDate'' JNull) (\<lambda>date_str.
     bindE (py_get dates_info ''localTime'' (JStr ''00:00:00'')) (\<lambda>time_str.
     if \<not> py_truthy date_str then Inr (None, None)
     else
       bindE (parse_iso L (fmt L date_str @ ''T'' @ fmt L time_str)) (\<lambda>parsed_start.
       let start_datetime = replace_tzinfo_utc parsed_start in
       bindE (py_get event ''dates'' (JObj [])) (\<lambda>dates2.
       bindE (py_get dates2 ''end'' (JObj [])) (\<lambda>end_info.
       bindE (py_get end_info ''localDate'' JNull) (\<lambda>end_date_str.
       bindE (py_get end_info ''localTime'' JNull) (\<lambda>end_time_str.
       bindE (if py_truthy end_date_str \<and> py_truthy end_time_str
              then bindE (parse_iso L (fmt L end_date_str @ ''T'' @ fmt L end_time_str))
                     (\<lambda>parsed_end. Inr (replace_tzinfo_utc parsed_end))
              else dt_add_hours start_datetime 3) (\<lambda>end_datetime.
       Inr (Some start_datetime, Some end_datetime)))))))))))"

section \<open>The range containment filter\<close>

text \<open>The loop of \<^verbatim>\<open>event_falls_within_time_ranges\<close> over the ranges: the second
  comparison is made only when the first holds.\<close>

fun within_any :: "datetime \<Rightarrow> datetime \<Rightarrow> (datetime \<times> datetime) list \<Rightarrow> exn + bool" where
  "within_any event_start event_end [] = Inr False"
| "within_any event_start event_end ((range_start, range_end) # rest) =
     bindE (dt_le range_start event_start) (\<lambda>c1.
       if c1 then
         bindE (dt_le event_end range_end) (\<lambda>c2.
           if c2 then Inr True else within_any event_start event_end rest)
       else within_any event_start event_end rest)"

definition event_falls_within_time_ranges ::
  "pylib \<Rightarrow> json \<Rightarrow> (datetime \<times> datetime) list \<Rightarrow> exn + bool" where
  "event_falls_within_time_ranges L event time_ranges =
     bindE (parse_event_datetime L event) (\<lambda>(event_start, event_end).
       case (event_start, event_end) of
         (Some s, Some e) \<Rightarrow> within_any s e time_ranges
       | _ \<Rightarrow> Inr False)"

section \<open>The event detail extractor\<close>

text \<open>The address parts of a venue, in the order the code appends them: a part is
  appended when its lookup is true, and then read again by subscript.\<close>

definition nested_part :: "json \<Rightarrow> string \<Rightarrow> string \<Rightarrow> json list \<Rightarrow> exn + json list" where
  "nested_part venue outer inner address_parts =
     bindE (py_get venue outer (JObj [])) (\<lambda>sub.
     bindE (py_get sub inner JNull) (\<lambda>v.
     if py_truthy v then
       bindE (py_getitem venue outer) (\<lambda>sub2.
       bindE (py_getitem sub2 inner) (\<lambda>v2. Inr (address_parts @ [v2])))
     else Inr address_parts))"

definition postal_part :: "json \<Rightarrow> json list \<Rightarrow> exn + json list" where
  "postal_part venue address_parts =
     bindE (py_get venue ''postalCode'' JNull) (\<lambda>v.
     if py_truthy v then
       bindE (py_getitem venue ''postalCode'') (\<lambda>v2. Inr (address_parts @ [v2]))
     else Inr address_parts)"

definition venue_fields :: "json \<Rightarrow> (string \<times> json) list \<Rightarrow> exn + (string \<times> json) list" where
  "venue_fields event details =
     bindE (py_contains ''_embedded'' event) (\<lambda>has_embedded.
     bindE (if has_embedded
            then bindE (py_getitem event ''_embedded'') (py_contains ''venues'')
            else Inr False) (\<lambda>has_venues.
     if has_venues then
       bindE (py_getitem event ''_embedded'') (\<lambda>embedded.
       bindE (py_getitem embedded ''venues'') (\<lambda>venues.
       bindE (py_first venues) (\<lambda>venue.
       bindE (py_get venue ''name'' (JStr ''N/A'')) (\<lambda>venue_name.
       let details = AList.update ''venue_name'' venue_name details in
       bindE (nested_part venue ''address'' ''line1'' []) (\<lambda>parts1.
       bindE (nested_part venue ''city'' ''name'' parts1) (\<lambda>parts2.
       bindE (nested_part venue ''state'' ''stateCode'' parts2) (\<lambda>parts3.
       bindE (postal_part venue parts3) (\<lambda>parts4.
       bindE (nested_part venue ''country'' ''countryCode'' parts4) (\<lambda>address_parts.
       bindE (if address_parts \<noteq> [] then py_join '', '' address_parts
              else Inr (JStr ''N/A'')) (\<lambda>venue_address.
       Inr (AList.update ''venue_address'' venue_address details)))))))))))
     else
       Inr (AList.update ''venue_address'' (JStr ''N/A'')
             (AList.update ''venue_name'' (JStr ''N/A'') details))))"

text \<open>\<^verbatim>\<open>classifications[0].get(k, {}).get("name", "N/A")\<close>.\<close>

definition classification_name :: "json \<Rightarrow> string \<Rightarrow> exn + json" where
  "classification_name classifications k =
     bindE (py_first classifications) (\<lambda>c.
     bindE (py_get c k (JObj [])) (\<lambda>sub.
     py_get sub ''name'' (JStr ''N/A'')))"

definition classification_fields ::
  "json \<Rightarrow> (string \<times> json) list \<Rightarrow> exn + (string \<times> json) list" where
  "classification_fields event details =
     bindE (py_get event ''classifications'' (JList [])) (\<lambda>classifications.
     if py_truthy classifications then
       bindE (classification_name classifications ''segment'') (\<lambda>category.
       bindE (classification_name classifications ''genre'') (\<lambda>genre.
       bindE (classification_name classifications ''subGenre'') (\<lambda>subgenre.
       Inr (AList.update ''subgenre'' subgenre
             (AList.update ''genre'' genre
               (AList.update ''category'' category details))))))
     else
       Inr (AList.update ''subgenre'' (JStr ''N/A'')
             (AList.update ''genre'' (JStr ''N/A'')
               (AList.update ''category'' (JStr ''N/A'') details))))"

definition price_fields :: "json \<Rightarrow> (string \<times> json) list \<Rightarrow> exn + (string \<times> json) list" where
  "price_fields event details =
     bindE (py_get event ''priceRanges'' (JList [])) (\<lambda>price_ranges.
     if py_truthy price_ranges then
       bindE (py_first price_ranges) (\<lambda>pr.
       bindE (py_get pr ''min'' (JStr ''N/A'')) (\<lambda>price_min.
       bindE (py_get pr ''max'' (JStr ''N/A'')) (\<lambda>price_max.
       bindE (py_get pr ''currency'' (JStr ''USD'')) (\<lambda>currency.
       Inr (AList.update ''currency'' currency
             (AList.update ''price_max'' price_max
               (AList.update ''price_min'' price_min details)))))))
     else
       Inr (AList.update ''currency'' (JStr ''N/A'')
             (AList.update ''price_max'' (JStr ''N/A'')
               (AList.update ''price_min'' (JStr ''N/A'') details))))"

definition sale_fields :: "json \<Rightarrow> (string \<times> json) list \<Rightarrow> exn + (string \<times> json) list" where
  "sale_fields event details =
     bindE (py_get event ''sales'' (JObj [])) (\<lambda>sales.
     bindE (py_get sales ''public'' (JObj [])) (\<lambda>public_sale.
     bindE (py_get public_sale ''startDateTime'' (JStr ''N/A'')) (\<lambda>onsale_start.
     bindE (py_get public_sale ''endDateTime'' (JStr ''N/A'')) (\<lambda>onsale_end.
     bindE (py_get public_sale ''startTBD'' (JBool False)) (\<lambda>sale_status.
     Inr (AList.update ''sale_status'' sale_status
           (AList.update ''onsale_end'' onsale_end
             (AList.update ''onsale_start'' onsale_start details))))))))"

definition iso_or_na :: "pylib \<Rightarrow> datetime option \<Rightarrow> json" where
  "iso_or_na L d = (case d of None \<Rightarrow> JStr ''N/A'' | Some t \<Rightarrow> JStr (isoformat L t))"

text \<open>\<^verbatim>\<open>extract_event_details\<close>: the dictionary \<open>details\<close> filled in the order of
  the source.\<close>

definition extract_event_details :: "pylib \<Rightarrow> json \<Rightarrow> exn + json" where
  "extract_event_details L event =
     bindE (py_get event ''name'' (JStr ''N/A'')) (\<lambda>name.
     bindE (py_get event ''url'' (JStr ''N/A'')) (\<lambda>url.
     let details = [(''name'', name), (''url'', url)] in
     bindE (parse_event_datetime L event) (\<lambda>(start_dt, end_dt).
     let details = AList.update ''concert_start'' (iso_or_na L start_dt) details;
         details = AList.update ''concert_end'' (iso_or_na L end_dt) details in
     bindE (venue_fields event details) (\<lambda>details.
     bindE (classification_fields event details) (\<lambda>details.
     bindE (price_fields event details) (\<lambda>details.
     bindE (sale_fields event details) (\<lambda>details.
     Inr (JObj details))))))))"

section \<open>The concert search orchestrator\<close>

text \<open>What a call does to the outside: the requests it sends, and the line it prints
  when it swallows an exception.\<close>

datatype effect = Sent request | Printed exn

definition ticketmaster_api_key :: string where
  "ticketmaster_api_key = ''gpMqpLqs1VDGhY1mgRhT0UOSh1EgHSM1''"

definition ticketmaster_api_base :: string where
  "ticketmaster_api_base = ''https://app.ticketmaster.com/discovery/v2''"

text \<open>The loop over the events of the response: an exception leaves the loop.\<close>

fun filter_events ::
  "pylib \<Rightarrow> (datetime \<times> datetime) list \<Rightarrow> json list \<Rightarrow> json list \<Rightarrow> exn + json list" where
  "filter_events L time_ranges [] filtered_events = Inr filtered_events"
| "filter_events L time_ranges (event # events) filtered_events =
     bindE (event_falls_within_time_ranges L event time_ranges) (\<lambda>within.
       if within then
         bindE (extract_event_details L event) (\<lambda>event_details.
           filter_events L time_ranges events (filtered_events @ [event_details]))
       else filter_events L time_ranges events filtered_events)"

definition concert_params ::
  "pylib \<Rightarrow> string \<Rightarrow> string \<Rightarrow> datetime \<Rightarrow> datetime \<Rightarrow> string option \<Rightarrow> (string \<times> json) list" where
  "concert_params L city state_code overall_start overall_end genre =
     (let params =
            [(''apikey'', JStr ticketmaster_api_key),
             (''city'', JStr city),
             (''stateCode'', JStr state_code),
             (''startDateTime'', JStr (strftime_z L overall_start)),
             (''endDateTime'', JStr (strftime_z L overall_end)),
             (''classificationName'', JStr ''Music''),
             (''sort'', JStr ''relevance,desc''),
             (''size'', JInt 30)]
      in case genre of
           None \<Rightarrow> params
         | Some g \<Rightarrow> if g \<noteq> [] then AList.update ''genreName'' (JStr g) params else params)"

definition concert_request ::
  "pylib \<Rightarrow> string \<Rightarrow> string \<Rightarrow> datetime \<Rightarrow> datetime \<Rightarrow> string option \<Rightarrow> request" where
  "concert_request L city state_code overall_start overall_end genre =
     \<lparr>req_method = ''GET'',
      req_url = ticketmaster_api_base @ ''/events'',
      req_headers = [],
      req_params = Some (concert_params L city state_code overall_start overall_end genre),
      req_json = None,
      req_timeout = Some 10\<rparr>"

text \<open>The body of the \<^verbatim>\<open>try\<close>: send, check the status, decode, filter.\<close>

definition read_json :: "pylib \<Rightarrow> request \<Rightarrow> exn + json" where
  "read_json L rq =
     bindE (http_send L rq) (\<lambda>resp.
       case raise_for_status resp of
         Some e \<Rightarrow> Inl e
       | None \<Rightarrow> json_body resp)"

definition events_of_data ::
  "pylib \<Rightarrow> (datetime \<times> datetime) list \<Rightarrow> json \<Rightarrow> exn + json list" where
  "events_of_data L time_ranges data =
     bindE (py_contains ''_embedded'' data) (\<lambda>has_embedded.
     bindE (if has_embedded
            then bindE (py_getitem data ''_embedded'') (py_contains ''events'')
            else Inr False) (\<lambda>has_events.
     if has_events then
       bindE (py_getitem data ''_embedded'') (\<lambda>embedded.
       bindE (py_getitem embedded ''events'') (\<lambda>events.
       bindE (py_iter events) (\<lambda>items.
       filter_events L time_ranges items [])))
     else Inr []))"

definition get_concerts_in_time_ranges ::
  "pylib \<Rightarrow> string \<Rightarrow> string \<Rightarrow> (datetime \<times> datetime) list \<Rightarrow> string option
     \<Rightarrow> (exn + json list) \<times> effect list" where
  "get_concerts_in_time_ranges L city state_code time_ranges genre =
     (if time_ranges = [] then (Inr [], [])
      else
        case py_min (map fst time_ranges) of
          Inl e \<Rightarrow> (Inl e, [])
        | Inr overall_start \<Rightarrow>
        (case py_max (map snd time_ranges) of
          Inl e \<Rightarrow> (Inl e, [])
        | Inr overall_end \<Rightarrow>
          (let rq = concert_request L city state_code overall_start overall_end genre
           in (case bindE (read_json L rq) (events_of_data L time_ranges) of
                 Inr filtered_events \<Rightarrow> (Inr filtered_events, [Sent rq])
               | Inl e \<Rightarrow> (Inr [], [Sent rq, Printed e])))))"

definition get_concerts ::
  "pylib \<Rightarrow> datetime \<Rightarrow> datetime \<Rightarrow> string \<Rightarrow> string \<Rightarrow> (exn + json list) \<times> effect list" where
  "get_concerts L start_date end_date city state_code =
     get_concerts_in_time_ranges L city state_code [(start_date, end_date)] None"

text \<open>\<^verbatim>\<open>s.replace("Z", "+00:00")\<close>.\<close>

definition replace_Z :: "string \<Rightarrow> string" where
  "replace_Z s = concat (map (\<lambda>c. if c = CHR ''Z'' then ''+00:00'' else [c]) s)"

text \<open>The exposed tool: \<^verbatim>\<open>get_concerts\<close> is called with its default city and
  state.\<close>

definition e100_h100_get_ticketmaster_concerts ::
  "pylib \<Rightarrow> string \<Rightarrow> string \<Rightarrow> (exn + json list) \<times> effect list" where
  "e100_h100_get_ticketmaster_concerts L start_time end_time =
     (case parse_iso L (replace_Z start_time) of
        Inl e \<Rightarrow> (Inl e, [])
      | Inr start_dt \<Rightarrow>
        (case parse_iso L (replace_Z end_time) of
           Inl e \<Rightarrow> (Inl e, [])
         | Inr end_dt \<Rightarrow> get_concerts L start_dt end_dt ''Toronto'' ''ON''))"

section \<open>The calendar adapters\<close>


definition nl :: string where
  "nl = [CHR 0x0A]"

text \<open>The loop of \<^verbatim>\<open>format_event_to_document\<close> over the attendees.\<close>

fun format_attendees :: "pylib \<Rightarrow> json list \<Rightarrow> string list \<Rightarrow> exn + string list" where
  "format_attendees L [] attendees_formatted = Inr attendees_formatted"
| "format_attendees L (attendee # rest) attendees_formatted =
     bindE (py_get attendee ''email'' (JStr ''Unknown'')) (\<lambda>email.
     bindE (py_get attendee ''displayName'' email) (\<lambda>name.
     bindE (py_get attendee ''responseStatus'' (JStr ''needsAction'')) (\<lambda>status.
     bindE (py_get attendee ''organizer'' JNull) (\<lambda>is_organizer.
     let organizer = (if py_truthy is_organizer then '' (Organizer)'' else []) in
     format_attendees L rest
       (attendees_formatted @ [fmt L name @ '' - '' @ fmt L status @ organizer])))))"

text \<open>The loop over the entry points: the first video entry gives the link.\<close>

fun find_video :: "json list \<Rightarrow> exn + json" where
  "find_video [] = Inr (JStr [])"
| "find_video (entry # rest) =
     bindE (py_get entry ''entryPointType'' JNull) (\<lambda>t.
       if t = JStr ''video'' then py_get entry ''uri'' (JStr []) else find_video rest)"

definition event_content ::
  "pylib \<Rightarrow> json \<Rightarrow> json \<Rightarrow> json \<Rightarrow> json \<Rightarrow> json \<Rightarrow> string list \<Rightarrow> json \<Rightarrow> json \<Rightarrow> json
     \<Rightarrow> string" where
  "event_content L summary description start_time end_time location attendees_formatted
       conference_link status html_link =
     (let content = ''# '' @ fmt L summary @ nl @ nl;
          content = (if py_truthy description
                     then content @ ''**Description:** '' @ fmt L description @ nl @ nl
                     else content);
          content = content @ ''**Start:** '' @ fmt L start_time @ nl;
          content = content @ ''**End:** '' @ fmt L end_time @ nl @ nl;
          content = (if py_truthy location
                     then content @ ''**Location:** '' @ fmt L location @ nl @ nl
                     else content);
          content = (if attendees_formatted \<noteq> []
                     then content @ ''**Attendees (''
                            @ fmt L (JInt (int (length attendees_formatted))) @ ''):**'' @ nl
                            @ concat (map (\<lambda>attendee. ''  - '' @ attendee @ nl) attendees_formatted)
                            @ nl
                     else content);
          content = (if py_truthy conference_link
                     then content @ ''**Video Conference:** '' @ fmt L conference_link @ nl @ nl
                     else content);
          content = content @ ''**Status:** '' @ fmt L status @ nl;
          content = (if py_truthy html_link
                     then content @ ''**Link:** '' @ fmt L html_link @ nl
                     else content)
      in content)"

text \<open>\<^verbatim>\<open>format_event_to_document\<close>.\<close>

definition format_event_to_document :: "pylib \<Rightarrow> json \<Rightarrow> exn + json" where
  "format_event_to_document L event =
     bindE (py_get event ''summary'' (JStr ''(No title)'')) (\<lambda>summary.
     bindE (py_get event ''description'' (JStr [])) (\<lambda>description.
     bindE (py_get event ''location'' (JStr [])) (\<lambda>location.
     bindE (py_get event ''htmlLink'' (JStr [])) (\<lambda>html_link.
     bindE (py_get event ''start'' (JObj [])) (\<lambda>start.
     bindE (py_get event ''end'' (JObj [])) (\<lambda>end_of_event.
     bindE (py_get start ''date'' (JStr ''Not specified'')) (\<lambda>start_date.
     bindE (py_get start ''dateTime'' start_date) (\<lambda>start_time.
     bindE (py_get end_of_event ''date'' (JStr ''Not specified'')) (\<lambda>end_date.
     bindE (py_get end_of_event ''dateTime'' end_date) (\<lambda>end_time.
     bindE (py_get event ''attendees'' (JList [])) (\<lambda>attendees.
     bindE (py_iter attendees) (\<lambda>attendee_items.
     bindE (format_attendees L attendee_items []) (\<lambda>attendees_formatted.
     bindE (py_get event ''conferenceData'' (JObj [])) (\<lambda>conference_data.
     bindE (if py_truthy conference_data
            then bindE (py_get conference_data ''entryPoints'' (JList [])) (\<lambda>entry_points.
                 bindE (py_iter entry_points) find_video)
            else Inr (JStr [])) (\<lambda>conference_link.
     bindE (py_get event ''status'' (JStr ''confirmed'')) (\<lambda>status.
     let content = event_content L summary description start_time end_time location
                     attendees_formatted conference_link status html_link in
     bindE (py_get event ''id'' JNull) (\<lambda>event_id.
     bindE (py_get event ''kind'' (JStr ''calendar#event'')) (\<lambda>kind.
     bindE (py_len attendees) (\<lambda>attendees_count.
     Inr (JObj
       [(''id'', event_id),
        (''kind'', kind),
        (''title'', summary),
        (''url'', html_link),
        (''content'', JStr (str_strip L content)),
        (''start_time'', start_time),
        (''end_time'', end_time),
        (''location'', location),
        (''attendees_count'', JInt (int attendees_count))]))))))))))))))))))))"














section \<open>A reference instance of the library\<close>

text \<open>
  The theorems below hold for every library and every server. To run the model on
  concrete inputs, this instance supplies the library functions on the inputs the
  examples use: \<^verbatim>\<open>fromisoformat\<close> on the format
  \<^verbatim>\<open>YYYY-MM-DDTHH:MM:SS\<close> with an optional offset \<^verbatim>\<open>+HH:MM\<close> (every
  other text is refused), the two formatters on years from 1000 on, \<^verbatim>\<open>str\<close> on
  \<^verbatim>\<open>None\<close>, booleans and integers, and \<^verbatim>\<open>strip\<close> on ASCII white space.
\<close>

definition digit_of :: "char \<Rightarrow> nat option" where
  "digit_of c = (let n = (of_char c :: nat) in if 48 \<le> n \<and> n \<le> 57 then Some (n - 48) else None)"

fun number_of :: "string \<Rightarrow> nat \<Rightarrow> nat option" where
  "number_of [] acc = Some acc"
| "number_of (c # cs) acc =
     (case digit_of c of None \<Rightarrow> None | Some d \<Rightarrow> number_of cs (10 * acc + d))"

definition is_leap :: "nat \<Rightarrow> bool" where
  "is_leap y = (y mod 4 = 0 \<and> (y mod 100 \<noteq> 0 \<or> y mod 400 = 0))"

definition days_before_month :: "bool \<Rightarrow> nat \<Rightarrow> nat" where
  "days_before_month leap m =
     [0, 31, 59, 90, 120, 151, 181, 212, 243, 273, 304, 334] ! (m - 1)
       + (if 2 < m \<and> leap then 1 else 0)"

definition days_in_month :: "bool \<Rightarrow> nat \<Rightarrow> nat" where
  "days_in_month leap m =
     (if m = 2 \<and> leap then 29
      else [31, 28, 31, 30, 31, 30, 31, 31, 30, 31, 30, 31] ! (m - 1))"

definition days_before_year :: "nat \<Rightarrow> nat" where
  "days_before_year y = (let p = y - 1 in p * 365 + p div 4 - p div 100 + p div 400)"

definition civil_ticks :: "nat \<Rightarrow> nat \<Rightarrow> nat \<Rightarrow> nat \<Rightarrow> nat \<Rightarrow> nat \<Rightarrow> int option" where
  "civil_ticks y m d hh mm ss =
     (if 1 \<le> y \<and> y \<le> 9999 \<and> 1 \<le> m \<and> m \<le> 12 \<and> 1 \<le> d \<and> d \<le> days_in_month (is_leap y) m
         \<and> hh \<le> 23 \<and> mm \<le> 59 \<and> ss \<le> 59
      then Some (int ((((days_before_year y + days_before_month (is_leap y) m + (d - 1)) * 24
                          + hh) * 60 + mm) * 60 + ss) * 1000000)
      else None)"

definition iso_offset :: "string \<Rightarrow> int option option" where
  "iso_offset s =
     (case s of
        [] \<Rightarrow> Some None
      | [sg, h1, h2, c, m1, m2] \<Rightarrow>
          (if (sg = CHR ''+'' \<or> sg = CHR ''-'') \<and> c = CHR '':'' then
             (case (number_of [h1, h2] 0, number_of [m1, m2] 0) of
                (Some hh, Some mm) \<Rightarrow>
                  if hh \<le> 23 \<and> mm \<le> 59
                  then Some (Some ((if sg = CHR ''-'' then - 1 else 1)
                                     * (int hh * 60 + int mm) * 60000000))
                  else None
              | _ \<Rightarrow> None)
           else None)
      | _ \<Rightarrow> None)"

definition iso_seconds :: "string \<Rightarrow> datetime option" where
  "iso_seconds s =
     (if 19 \<le> length s \<and> s ! 4 = CHR ''-'' \<and> s ! 7 = CHR ''-'' \<and> s ! 10 = CHR ''T''
         \<and> s ! 13 = CHR '':'' \<and> s ! 16 = CHR '':'' then
        (case (number_of (take 4 s) 0, number_of (take 2 (drop 5 s)) 0,
               number_of (take 2 (drop 8 s)) 0, number_of (take 2 (drop 11 s)) 0,
               number_of (take 2 (drop 14 s)) 0, number_of (take 2 (drop 17 s)) 0,
               iso_offset (drop 19 s)) of
           (Some y, Some m, Some d, Some hh, Some mm, Some ss, Some off) \<Rightarrow>
             (case civil_ticks y m d hh mm ss of
                Some t \<Rightarrow> Some \<lparr>ticks = t, tzoffset = off\<rparr>
              | None \<Rightarrow> None)
         | _ \<Rightarrow> None)
      else None)"

definition digit_char :: "nat \<Rightarrow> char" where
  "digit_char n = ''0123456789'' ! (n mod 10)"

definition pad2 :: "nat \<Rightarrow> string" where
  "pad2 n = [digit_char (n div 10), digit_char n]"

definition pad4 :: "nat \<Rightarrow> string" where
  "pad4 n = pad2 (n div 100) @ pad2 (n mod 100)"

fun decimal :: "nat \<Rightarrow> string" where
  "decimal n = (if n < 10 then [digit_char n] else decimal (n div 10) @ [digit_char n])"

text \<open>Year, month and day of a day number counted from 0001-01-01 as day 0.\<close>

definition ord2ymd :: "nat \<Rightarrow> nat \<times> nat \<times> nat" where
  "ord2ymd n0 =
     (let n400 = n0 div 146097; r400 = n0 mod 146097;
          n100 = r400 div 36524; r100 = r400 mod 36524;
          n4 = r100 div 1461; r4 = r100 mod 1461;
          n1 = r4 div 365; n = r4 mod 365;
          y = n400 * 400 + 1 + n100 * 100 + n4 * 4 + n1
      in if n1 = 4 \<or> n100 = 4 then (y - 1, 12, 31)
         else
           (let leap = (n1 = 3 \<and> (n4 \<noteq> 24 \<or> n100 = 3));
                m0 = (n + 50) div 32;
                m = (if n < days_before_month leap m0 then m0 - 1 else m0)
            in (y, m, n - days_before_month leap m + 1)))"

definition date_time_text :: "datetime \<Rightarrow> string" where
  "date_time_text d =
     (let secs = nat (ticks d) div 1000000;
          (y, m, dd) = ord2ymd (secs div 86400);
          r = secs mod 86400
      in pad4 y @ ''-'' @ pad2 m @ ''-'' @ pad2 dd @ ''T''
           @ pad2 (r div 3600) @ '':'' @ pad2 (r div 60 mod 60) @ '':'' @ pad2 (r mod 60))"

definition offset_text :: "int option \<Rightarrow> string" where
  "offset_text off =
     (case off of
        None \<Rightarrow> []
      | Some x \<Rightarrow>
          (let mins = nat \<bar>x\<bar> div 60000000
           in (if x < 0 then ''-'' else ''+'') @ pad2 (mins div 60) @ '':'' @ pad2 (mins mod 60)))"

definition ref_isoformat :: "datetime \<Rightarrow> string" where
  "ref_isoformat d = date_time_text d @ offset_text (tzoffset d)"

definition ref_strftime_fields :: "int \<Rightarrow> string" where
  "ref_strftime_fields t = date_time_text \<lparr>ticks = t, tzoffset = None\<rparr>"

definition ref_str_of :: "json \<Rightarrow> string" where
  "ref_str_of v =
     (case v of
        JNull \<Rightarrow> ''None''
      | JBool b \<Rightarrow> (if b then ''True'' else ''False'')
      | JInt n \<Rightarrow> (if n < 0 then ''-'' else []) @ decimal (nat \<bar>n\<bar>)
      | JStr s \<Rightarrow> s
      | _ \<Rightarrow> ''...'')"

definition is_space :: "char \<Rightarrow> bool" where
  "is_space c = ((of_char c :: nat) \<in> {9, 10, 11, 12, 13, 28, 29, 30, 31, 32})"

definition ref_strip :: "string \<Rightarrow> string" where
  "ref_strip s = rev (dropWhile is_space (rev (dropWhile is_space s)))"

definition reference_lib :: "(request \<Rightarrow> exn + response) \<Rightarrow> pylib" where
  "reference_lib server =
     \<lparr>fromisoformat = iso_seconds,
      strftime_fields = ref_strftime_fields,
      isoformat = ref_isoformat,
      str_of = ref_str_of,
      str_strip = ref_strip,
      access_token = Some ''token'',
      http_send = server\<rparr>"

text \<open>A server that answers every request with status 200 and the given body.\<close>

definition answers :: "json \<Rightarrow> request \<Rightarrow> exn + response" where
  "answers data rq = Inr \<lparr>status_code = 200, raise_for_status = None, json_body = Inr data\<rparr>"

section \<open>Observations and example inputs\<close>

text \<open>The requests among the effects of a call.\<close>

fun requests_of :: "effect list \<Rightarrow> request list" where
  "requests_of [] = []"
| "requests_of (Sent rq # fx) = rq # requests_of fx"
| "requests_of (Printed e # fx) = requests_of fx"

text \<open>The events a decoded search response carries: what the orchestrator's loop runs
  over (\<^verbatim>\<open>data["_embedded"]["events"]\<close>), empty when there is no such list.\<close>

definition response_events :: "json \<Rightarrow> json list" where
  "response_events data =
     (case bindE (py_getitem data ''_embedded'') (\<lambda>embedded.
           bindE (py_getitem embedded ''events'') py_iter) of
        Inr items \<Rightarrow> items
      | Inl e \<Rightarrow> [])"

text \<open>An event names its end explicitly when \<^verbatim>\<open>dates.end\<close> has a true
  \<^verbatim>\<open>localDate\<close> and a true \<^verbatim>\<open>localTime\<close>: the test of the parser.\<close>

definition explicit_end :: "json \<Rightarrow> bool" where
  "explicit_end event =
     (case bindE (py_get event ''dates'' (JObj [])) (\<lambda>dates.
           bindE (py_get dates ''end'' (JObj [])) (\<lambda>end_info.
           bindE (py_get end_info ''localDate'' JNull) (\<lambda>end_date_str.
           bindE (py_get end_info ''localTime'' JNull) (\<lambda>end_time_str.
           Inr (py_truthy end_date_str \<and> py_truthy end_time_str))))) of
        Inr b \<Rightarrow> b
      | Inl e \<Rightarrow> False)"

text \<open>A point of time in UTC, by its microseconds.\<close>

definition utc :: "int \<Rightarrow> datetime" where
  "utc t = \<lparr>ticks = t, tzoffset = Some 0\<rparr>"

text \<open>Midnight of 2026-01-01 is second 63902822400 of the calendar; the examples count
  from there.\<close>

definition jan1 :: "int \<Rightarrow> int \<Rightarrow> datetime" where
  "jan1 hh mm = utc ((63902822400 + hh * 3600 + mm * 60) * 1000000)"

definition jan5 :: "int \<Rightarrow> int \<Rightarrow> datetime" where
  "jan5 hh mm = utc ((63903168000 + hh * 3600 + mm * 60) * 1000000)"

text \<open>An event of the ticket vendor with a start and, when given, an end.\<close>

definition concert :: "string \<Rightarrow> string \<Rightarrow> string \<Rightarrow> (string \<times> string) option \<Rightarrow> json" where
  "concert name local_date local_time ending =
     JObj [(''name'', JStr name),
           (''dates'', JObj
              ((''start'', JObj [(''localDate'', JStr local_date), (''localTime'', JStr local_time)])
               # (case ending of
                    None \<Rightarrow> []
                  | Some (d, t) \<Rightarrow>
                      [(''end'', JObj [(''localDate'', JStr d), (''localTime'', JStr t)])])))]"

definition search_response :: "json list \<Rightarrow> json" where
  "search_response events = JObj [(''_embedded'', JObj [(''events'', JList events)])]"

text \<open>The details of an event that has a name and dates and nothing else.\<close>

definition bare_details :: "string \<Rightarrow> string \<Rightarrow> string \<Rightarrow> json" where
  "bare_details name concert_start concert_end =
     JObj [(''name'', JStr name), (''url'', JStr ''N/A''),
           (''concert_start'', JStr concert_start),
           (''concert_end'', JStr concert_end),
           (''venue_name'', JStr ''N/A''), (''venue_address'', JStr ''N/A''),
           (''category'', JStr ''N/A''), (''genre'', JStr ''N/A''), (''subgenre'', JStr ''N/A''),
           (''price_min'', JStr ''N/A''), (''price_max'', JStr ''N/A''),
           (''currency'', JStr ''N/A''),
           (''onsale_start'', JStr ''N/A''), (''onsale_end'', JStr ''N/A''),
           (''sale_status'', JBool False)]"

text \<open>Three concerts: one inside the first range below, one between the two ranges, one
  that crosses the end of the first range; and a listing whose date is not a date.\<close>

definition concert_a :: json where
  "concert_a = concert ''A'' ''2026-01-01'' ''10:30:00'' (Some (''2026-01-01'', ''11:30:00''))"

definition concert_b :: json where
  "concert_b = concert ''B'' ''2026-01-03'' ''12:00:00'' None"

definition concert_c :: json where
  "concert_c = concert ''C'' ''2026-01-01'' ''11:00:00'' (Some (''2026-01-01'', ''13:00:00''))"

definition concert_bad :: json where
  "concert_bad = concert ''X'' ''2026-13-45'' ''20:00:00'' None"

definition two_ranges :: "(datetime \<times> datetime) list" where
  "two_ranges = [(jan1 10 0, jan1 12 0), (jan5 18 0, jan5 20 0)]"

text \<open>A concert with a price range that names no currency, and one whose list of venues
  is empty.\<close>

definition concert_priced :: json where
  "concert_priced =
     JObj [(''name'', JStr ''P''),
           (''dates'', JObj [(''start'', JObj [(''localDate'', JStr ''2026-01-01''),
                                               (''localTime'', JStr ''10:30:00'')])]),
           (''priceRanges'', JList [JObj [(''min'', JInt 40), (''max'', JInt 95)]])]"

definition concert_no_venues :: json where
  "concert_no_venues =
     JObj [(''name'', JStr ''V''),
           (''dates'', JObj [(''start'', JObj [(''localDate'', JStr ''2026-01-01''),
                                               (''localTime'', JStr ''10:30:00'')])]),
           (''_embedded'', JObj [(''venues'', JList [])])]"

text \<open>A stored calendar event, a calendar event that has only an id, and a stub of the
  calendar server: it holds one event, answers a \<^verbatim>\<open>GET\<close> with it and a
  \<^verbatim>\<open>PUT\<close> with the document written.\<close>

definition stored_event :: json where
  "stored_event =
     JObj [(''id'', JStr ''ev1''),
           (''summary'', JStr ''Standup''),
           (''description'', JStr ''Daily sync''),
           (''location'', JStr ''Room 1''),
           (''htmlLink'', JStr ''https://calendar.example/ev1''),
           (''start'', JObj [(''dateTime'', JStr ''2026-01-15T10:00:00''),
                             (''timeZone'', JStr ''America/New_York'')]),
           (''end'', JObj [(''dateTime'', JStr ''2026-01-15T10:30:00''),
                           (''timeZone'', JStr ''America/New_York'')]),
           (''attendees'', JList [JObj [(''email'', JStr ''ana@example.com'')]])]"

definition untitled_event :: json where
  "untitled_event = JObj [(''id'', JStr ''ev2'')]"


text \<open>Re-extracting a field from the outcome of a formatting: \<^verbatim>\<open>doc.get(k)\<close>.\<close>

definition doc_field :: "string \<Rightarrow> exn + json \<Rightarrow> exn + json" where
  "doc_field k outcome = bindE outcome (\<lambda>doc. py_get doc k JNull)"




section \<open>Properties\<close>

subsection \<open>Sequencing\<close>

lemma bindE_Inr_iff: "bindE m f = Inr y \<longleftrightarrow> (\<exists>x. m = Inr x \<and> f x = Inr y)"
  by (cases m) auto

lemma bindE_Inl_iff: "bindE m f = Inl e \<longleftrightarrow> (m = Inl e \<or> (\<exists>x. m = Inr x \<and> f x = Inl e))"
  by (cases m) auto

text \<open>The definitions that evaluate the reference library on a concrete input.\<close>

lemmas ref_defs =
  reference_lib_def answers_def iso_seconds_def civil_ticks_def digit_of_def iso_offset_def
  is_leap_def days_in_month_def days_before_year_def days_before_month_def
  ref_isoformat_def ref_strftime_fields_def strftime_z_def offset_text_def date_time_text_def ord2ymd_def
  pad4_def pad2_def digit_char_def ref_str_of_def ref_strip_def is_space_def

lemmas example_defs =
  utc_def jan1_def jan5_def concert_def search_response_def bare_details_def
  concert_a_def concert_b_def concert_c_def concert_bad_def two_ranges_def

lemmas format_defs =
  format_event_to_document_def event_content_def fmt_def nl_def Let_def

lemmas extract_defs =
  extract_event_details_def venue_fields_def classification_fields_def price_fields_def
  sale_fields_def iso_or_na_def nested_part_def postal_part_def classification_name_def
  py_join_def

lemmas parse_defs =
  parse_event_datetime_def parse_iso_def fmt_def replace_tzinfo_utc_def dt_add_hours_def
  hours_def max_ticks_def

subsection \<open>The parser\<close>

lemma dt_add_hours_Inr:
  "dt_add_hours d h = Inr d' \<Longrightarrow> tzoffset d' = tzoffset d \<and> ticks d' = ticks d + hours h"
  by (auto simp: dt_add_hours_def Let_def split: if_splits)


subsection \<open>The containment filter\<close>




text \<open>The example concert of 2026-01-01, 10:30 to 11:30, and an event with no dates.\<close>

lemma parse_concert_a:
  "parse_event_datetime (reference_lib srv)
     (concert ''A'' ''2026-01-01'' ''10:30:00'' (Some (''2026-01-01'', ''11:30:00'')))
   = Inr (Some (jan1 10 30), Some (jan1 11 30))"
  by (simp add: parse_event_datetime_def parse_iso_def fmt_def replace_tzinfo_utc_def
      ref_defs example_defs)



subsection \<open>The fallback end\<close>

lemma parse_fallback_end:
  assumes "parse_event_datetime L event = Inr (Some s, Some e)" and "\<not> explicit_end event"
  shows "tzoffset e = tzoffset s \<and> ticks e = ticks s + hours 3"
  using assms
  by (auto simp: parse_event_datetime_def explicit_end_def bindE_Inr_iff Let_def
      split: if_splits dest: dt_add_hours_Inr)

lemma parse_start_only:
  assumes "map_of kvs ''dates'' = Some (JObj ds)"
    and "map_of ds ''start'' = Some (JObj st)"
    and "map_of ds ''end'' = None"
    and "map_of st ''localDate'' = Some date" and "py_truthy date"
    and "fromisoformat L (fmt L date @ ''T''
           @ fmt L (case map_of st ''localTime'' of None \<Rightarrow> JStr ''00:00:00'' | Some t \<Rightarrow> t)) = Some d"
    and "0 \<le> ticks d + hours 3" and "ticks d + hours 3 \<le> max_ticks"
  shows "parse_event_datetime L (JObj kvs)
           = Inr (Some (replace_tzinfo_utc d),
                  Some ((replace_tzinfo_utc d)\<lparr>ticks := ticks d + hours 3\<rparr>))"
  using assms
  by (simp add: parse_event_datetime_def parse_iso_def dt_add_hours_def Let_def
      replace_tzinfo_utc_def)

lemma explicit_end_no_key:
  "map_of kvs ''dates'' = Some (JObj ds) \<Longrightarrow> map_of ds ''end'' = None
     \<Longrightarrow> \<not> explicit_end (JObj kvs)"
  by (simp add: explicit_end_def)

text \<open>
  C5. When the parser returns a start \<open>s\<close> and an end \<open>e\<close> for an event that names
  no explicit end, \<open>e\<close> is \<open>s\<close> plus exactly three hours, in the same zone. The parser
  does return for an event with a true \<^verbatim>\<open>localDate\<close> whose text
  \<^verbatim>\<open>fromisoformat\<close> accepts and no \<^verbatim>\<open>dates.end\<close>, as long as three
  hours after the start is still a date of the calendar.
\<close>

theorem fallback_end_three_hours:
  "(parse_event_datetime L event = Inr (Some s, Some e) \<and> \<not> explicit_end event
      \<longrightarrow> instant e = instant s + 3 * 3600000000 \<and> tzoffset e = tzoffset s)
   \<and> (map_of kvs ''dates'' = Some (JObj ds) \<and> map_of ds ''start'' = Some (JObj st)
        \<and> map_of ds ''end'' = None
        \<and> map_of st ''localDate'' = Some date \<and> py_truthy date
        \<and> fromisoformat L (fmt L date @ ''T''
              @ fmt L (case map_of st ''localTime'' of None \<Rightarrow> JStr ''00:00:00'' | Some t \<Rightarrow> t))
            = Some d
        \<and> 0 \<le> ticks d + hours 3 \<and> ticks d + hours 3 \<le> max_ticks
      \<longrightarrow> \<not> explicit_end (JObj kvs)
          \<and> parse_event_datetime L (JObj kvs)
              = Inr (Some (replace_tzinfo_utc d),
                     Some ((replace_tzinfo_utc d)\<lparr>ticks := ticks d + hours 3\<rparr>)))"
proof (intro conjI impI)
  assume h: "parse_event_datetime L event = Inr (Some s, Some e) \<and> \<not> explicit_end event"
  then have "tzoffset e = tzoffset s \<and> ticks e = ticks s + hours 3"
    using parse_fallback_end [of L event s e] by simp
  then show "instant e = instant s + 3 * 3600000000" and "tzoffset e = tzoffset s"
    by (simp_all add: instant_def hours_def)
next
  assume h: "map_of kvs ''dates'' = Some (JObj ds) \<and> map_of ds ''start'' = Some (JObj st)
        \<and> map_of ds ''end'' = None
        \<and> map_of st ''localDate'' = Some date \<and> py_truthy date
        \<and> fromisoformat L (fmt L date @ ''T''
              @ fmt L (case map_of st ''localTime'' of None \<Rightarrow> JStr ''00:00:00'' | Some t \<Rightarrow> t))
            = Some d
        \<and> 0 \<le> ticks d + hours 3 \<and> ticks d + hours 3 \<le> max_ticks"
  then show "\<not> explicit_end (JObj kvs)"
    using explicit_end_no_key [of kvs ds] by simp
  from h show "parse_event_datetime L (JObj kvs)
              = Inr (Some (replace_tzinfo_utc d),
                     Some ((replace_tzinfo_utc d)\<lparr>ticks := ticks d + hours 3\<rparr>))"
    using parse_start_only [of kvs ds st date L d] by simp
qed

text \<open>A concert of 2026-01-03 at noon with no end is taken to end at 15:00; one that starts
  at 22:00 on the last day of the calendar has no end three hours later, and the parser
  raises.\<close>

lemma parse_last_day:
  "parse_event_datetime (reference_lib srv) (concert ''Z'' ''9999-12-31'' ''22:00:00'' None)
     = Inl OverflowError"
  by (simp add: parse_event_datetime_def parse_iso_def fmt_def replace_tzinfo_utc_def
      dt_add_hours_def hours_def max_ticks_def ref_defs example_defs)

theorem fallback_end_three_hours_witness:
  "parse_event_datetime (reference_lib (answers JNull))
       (concert ''B'' ''2026-01-03'' ''12:00:00'' None)
     = Inr (Some (jan1 60 0), Some (jan1 63 0))
   \<and> \<not> explicit_end (concert ''B'' ''2026-01-03'' ''12:00:00'' None)
   \<and> instant (jan1 63 0) = instant (jan1 60 0) + 3 * 3600000000
   \<and> parse_event_datetime (reference_lib (answers JNull))
       (concert ''Z'' ''9999-12-31'' ''22:00:00'' None) = Inl OverflowError"
proof -
  let ?L = "reference_lib (answers JNull)"
  let ?st = "[(''localDate'', JStr ''2026-01-03''), (''localTime'', JStr ''12:00:00'')]"
  let ?ds = "[(''start'', JObj ?st)]"
  let ?kvs = "[(''name'', JStr ''B''), (''dates'', JObj ?ds)]"
  let ?d = "\<lparr>ticks = 63903038400000000, tzoffset = None\<rparr>"
  have iso: "fromisoformat ?L ''2026-01-03T12:00:00'' = Some ?d"
    by (simp add: ref_defs)
  have B: "concert ''B'' ''2026-01-03'' ''12:00:00'' None = JObj ?kvs"
    by (simp add: concert_def)
  have 1: "\<not> explicit_end (JObj ?kvs)
     \<and> parse_event_datetime ?L (JObj ?kvs)
         = Inr (Some (replace_tzinfo_utc ?d),
                Some ((replace_tzinfo_utc ?d)\<lparr>ticks := ticks ?d + hours 3\<rparr>))"
    using fallback_end_three_hours
      [of ?L undefined undefined undefined ?kvs ?ds ?st "JStr ''2026-01-03''" ?d] iso
    by (simp add: fmt_def hours_def max_ticks_def)
  have 2: "instant (jan1 63 0) = instant (jan1 60 0) + 3 * 3600000000"
    using fallback_end_three_hours
      [of ?L "JObj ?kvs" "jan1 60 0" "jan1 63 0" ?kvs ?ds ?st "JStr ''2026-01-03''" ?d] 1
    by (simp add: replace_tzinfo_utc_def hours_def example_defs)
  show ?thesis
    using 1 2 parse_last_day [of "answers JNull"]
    by (simp add: B replace_tzinfo_utc_def hours_def example_defs)
qed

subsection \<open>The concert search\<close>







lemma filter_events_raises:
  assumes "ev \<in> set evs" and "parse_event_datetime L ev = Inl err"
  shows "\<exists>e. filter_events L rs evs acc = Inl e"
  using assms
proof (induction evs arbitrary: acc)
  case Nil
  then show ?case by simp
next
  case (Cons x evs)
  show ?case
  proof (cases "x = ev")
    case True
    then have "event_falls_within_time_ranges L x rs = Inl err"
      using Cons.prems(2) by (simp add: event_falls_within_time_ranges_def)
    then show ?thesis by simp
  next
    case False
    with Cons.prems have "ev \<in> set evs" by simp
    from Cons.IH [OF this Cons.prems(2)] have ih: "\<And>acc. \<exists>e. filter_events L rs evs acc = Inl e"
      by blast
    show ?thesis
    proof (cases "event_falls_within_time_ranges L x rs")
      case (Inl e)
      then show ?thesis by simp
    next
      case (Inr w)
      show ?thesis
      proof (cases "w")
        case True
        show ?thesis
        proof (cases "extract_event_details L x")
          case (Inl e)
          then show ?thesis using Inr True by simp
        next
          case (Inr d)
          then show ?thesis
            using \<open>event_falls_within_time_ranges L x rs = Inr w\<close> True ih [of "acc @ [d]"]
            by simp
        qed
      next
        case False
        then show ?thesis using Inr ih [of acc] by simp
      qed
    qed
  qed
qed

lemma getitem_contains: "py_getitem v k = Inr x \<Longrightarrow> py_contains k v = Inr True"
proof (cases v)
  case (JObj kvs)
  assume "py_getitem v k = Inr x"
  with JObj have "map_of kvs k = Some x" by (simp split: option.splits)
  then have "(k, x) \<in> set kvs" by (rule map_of_SomeD)
  then have "k \<in> fst ` set kvs" by force
  with JObj show ?thesis by simp
qed simp_all


lemma events_of_data_raises:
  assumes "ev \<in> set (response_events data)" and "parse_event_datetime L ev = Inl err"
  shows "\<exists>e. events_of_data L rs data = Inl e"
proof -
  from assms(1) obtain items where
    "bindE (py_getitem data ''_embedded'') (\<lambda>embedded.
       bindE (py_getitem embedded ''events'') py_iter) = Inr items"
    and m: "ev \<in> set items"
    by (cases "bindE (py_getitem data ''_embedded'') (\<lambda>embedded.
       bindE (py_getitem embedded ''events'') py_iter)") (auto simp: response_events_def)
  then obtain embedded events where
    e: "py_getitem data ''_embedded'' = Inr embedded"
    and v: "py_getitem embedded ''events'' = Inr events"
    and i: "py_iter events = Inr items"
    by (auto simp: bindE_Inr_iff)
  from e have c1: "py_contains ''_embedded'' data = Inr True"
    by (rule getitem_contains)
  from v have c2: "py_contains ''events'' embedded = Inr True"
    by (rule getitem_contains)
  from filter_events_raises [OF m assms(2)] obtain x where "filter_events L rs items [] = Inl x"
    by blast
  then show ?thesis
    using e v i c1 c2 by (simp add: events_of_data_def)
qed

lemma concert_params_window:
  "map_of (concert_params L city state_code qs qe genre) ''startDateTime''
     = Some (JStr (strftime_z L qs))
   \<and> map_of (concert_params L city state_code qs qe genre) ''endDateTime''
     = Some (JStr (strftime_z L qe))
   \<and> map_of (concert_params L city state_code qs qe genre) ''city'' = Some (JStr city)
   \<and> map_of (concert_params L city state_code qs qe genre) ''stateCode'' = Some (JStr state_code)"
  by (simp add: concert_params_def Let_def update_conv' split: option.splits)

lemma get_concerts_cases:
  assumes "py_min (map fst rs) = Inr qs" and "py_max (map snd rs) = Inr qe"
  shows "get_concerts_in_time_ranges L city state_code rs genre =
     (case bindE (read_json L (concert_request L city state_code qs qe genre))
             (events_of_data L rs) of
        Inr ds \<Rightarrow> (Inr ds, [Sent (concert_request L city state_code qs qe genre)])
      | Inl e \<Rightarrow> (Inr [], [Sent (concert_request L city state_code qs qe genre), Printed e]))"
proof -
  from assms(1) have "rs \<noteq> []" by (auto simp: py_min_def)
  then show ?thesis
    using assms by (simp add: get_concerts_in_time_ranges_def Let_def)
qed

text \<open>The example concerts, evaluated.\<close>

lemma parse_a:
  "parse_event_datetime (reference_lib srv) concert_a = Inr (Some (jan1 10 30), Some (jan1 11 30))"
  by (simp add: concert_a_def parse_concert_a)



lemma parse_bad:
  "parse_event_datetime (reference_lib srv) concert_bad = Inl ValueError"
  by (simp add: parse_defs ref_defs example_defs)

lemmas range_defs = utc_def jan1_def jan5_def two_ranges_def dt_le_def dt_lt_def

lemma falls_a:
  "event_falls_within_time_ranges (reference_lib srv) concert_a two_ranges = Inr True"
  by (simp add: event_falls_within_time_ranges_def parse_a range_defs)



lemma falls_bad:
  "event_falls_within_time_ranges (reference_lib srv) concert_bad rs = Inl ValueError"
  by (simp add: event_falls_within_time_ranges_def parse_bad)

lemma extract_a:
  "extract_event_details (reference_lib srv) concert_a
     = Inr (bare_details ''A'' ''2026-01-01T10:30:00+00:00'' ''2026-01-01T11:30:00+00:00'')"
  by (simp add: extract_defs parse_defs Let_def ref_defs example_defs)

lemma window_of_two_ranges:
  "py_min (map fst two_ranges) = Inr (jan1 10 0) \<and> py_max (map snd two_ranges) = Inr (jan5 20 0)"
  by (simp add: py_min_def py_max_def range_defs)

lemma read_json_answers:
  "read_json (reference_lib (answers data)) rq = Inr data"
  by (simp add: read_json_def reference_lib_def answers_def)

lemma events_of_search_response:
  "events_of_data L rs (search_response evs) = filter_events L rs evs []"
  by (simp add: events_of_data_def search_response_def)

lemma response_events_search_response:
  "response_events (search_response evs) = evs"
  by (simp add: response_events_def search_response_def)


lemma search_a_bad:
  "get_concerts_in_time_ranges (reference_lib (answers (search_response [concert_a, concert_bad])))
      ''Toronto'' ''ON'' two_ranges None
   = (Inr [],
      [Sent (concert_request (reference_lib (answers (search_response [concert_a, concert_bad])))
               ''Toronto'' ''ON'' (jan1 10 0) (jan5 20 0) None),
       Printed ValueError])"
  by (simp add: get_concerts_cases [OF conjunct1 [OF window_of_two_ranges] conjunct2 [OF window_of_two_ranges]]
      read_json_answers events_of_search_response falls_a falls_bad extract_a)

lemma search_a_alone:
  "get_concerts_in_time_ranges (reference_lib (answers (search_response [concert_a])))
      ''Toronto'' ''ON'' two_ranges None
   = (Inr [bare_details ''A'' ''2026-01-01T10:30:00+00:00'' ''2026-01-01T11:30:00+00:00''],
      [Sent (concert_request (reference_lib (answers (search_response [concert_a])))
               ''Toronto'' ''ON'' (jan1 10 0) (jan5 20 0) None)])"
  by (simp add: get_concerts_cases [OF conjunct1 [OF window_of_two_ranges] conjunct2 [OF window_of_two_ranges]]
      read_json_answers events_of_search_response falls_a extract_a)


text \<open>
  C3. With an empty list of time ranges the orchestrator returns the empty list and has no
  effect on the outside: no request is sent, whatever the city, the state code and the
  genre are.
\<close>

theorem empty_ranges_no_request:
  "get_concerts_in_time_ranges L city state_code [] genre = (Inr [], [])
   \<and> requests_of (snd (get_concerts_in_time_ranges L city state_code [] genre)) = []"
  by (simp add: get_concerts_in_time_ranges_def)

theorem empty_ranges_no_request_witness:
  "get_concerts_in_time_ranges (reference_lib (answers (search_response [concert_a])))
     ''Toronto'' ''ON'' [] (Some ''Rock'') = (Inr [], [])"
  using empty_ranges_no_request
    [of "reference_lib (answers (search_response [concert_a]))" "''Toronto''" "''ON''" "Some ''Rock''"]
  by simp












text \<open>
  C2, as the program has it. The date of an event is parsed inside the one
  \<^verbatim>\<open>try\<close> block of the orchestrator. When the parse of any event of the response
  raises, the loop is left, the handler prints the exception and the search returns the
  empty list: no event of that response is returned, and the caller sees no failure.
\<close>

theorem malformed_event_empties_result:
  assumes "py_min (map fst time_ranges) = Inr qs"
    and "py_max (map snd time_ranges) = Inr qe"
    and "read_json L (concert_request L city state_code qs qe genre) = Inr data"
    and "ev \<in> set (response_events data)"
    and "parse_event_datetime L ev = Inl err"
  shows "\<exists>e. get_concerts_in_time_ranges L city state_code time_ranges genre
           = (Inr [], [Sent (concert_request L city state_code qs qe genre), Printed e])"
proof -
  from events_of_data_raises [OF assms(4,5), of time_ranges]
  obtain e where "events_of_data L time_ranges data = Inl e"
    by blast
  then have "get_concerts_in_time_ranges L city state_code time_ranges genre
           = (Inr [], [Sent (concert_request L city state_code qs qe genre), Printed e])"
    using get_concerts_cases [OF assms(1,2), of L city state_code genre] assms(3)
    by simp
  then show ?thesis by blast
qed

theorem malformed_event_empties_result_witness:
  "py_min (map fst two_ranges) = Inr (jan1 10 0)
   \<and> py_max (map snd two_ranges) = Inr (jan5 20 0)
   \<and> read_json (reference_lib (answers (search_response [concert_a, concert_bad])))
        (concert_request (reference_lib (answers (search_response [concert_a, concert_bad])))
           ''Toronto'' ''ON'' (jan1 10 0) (jan5 20 0) None)
      = Inr (search_response [concert_a, concert_bad])
   \<and> concert_bad \<in> set (response_events (search_response [concert_a, concert_bad]))
   \<and> parse_event_datetime (reference_lib (answers (search_response [concert_a, concert_bad])))
        concert_bad = Inl ValueError
   \<and> (\<exists>e. get_concerts_in_time_ranges
              (reference_lib (answers (search_response [concert_a, concert_bad])))
              ''Toronto'' ''ON'' two_ranges None
           = (Inr [],
              [Sent (concert_request
                       (reference_lib (answers (search_response [concert_a, concert_bad])))
                       ''Toronto'' ''ON'' (jan1 10 0) (jan5 20 0) None),
               Printed e]))"
proof -
  let ?data = "search_response [concert_a, concert_bad]"
  let ?L = "reference_lib (answers ?data)"
  let ?rq = "concert_request ?L ''Toronto'' ''ON'' (jan1 10 0) (jan5 20 0) None"
  have 1: "py_min (map fst two_ranges) = Inr (jan1 10 0)"
    and 2: "py_max (map snd two_ranges) = Inr (jan5 20 0)"
    using window_of_two_ranges by simp_all
  have 3: "read_json ?L ?rq = Inr ?data"
    by (rule read_json_answers)
  have 4: "concert_bad \<in> set (response_events ?data)"
    by (simp add: response_events_search_response)
  have 5: "parse_event_datetime ?L concert_bad = Inl ValueError"
    by (rule parse_bad)
  from malformed_event_empties_result [OF 1 2 3 4 5]
  show ?thesis using 1 2 3 4 5 by simp
qed

text \<open>
  C2, as the specification has it, fails: of a response with a concert inside the first
  range and a listing whose date does not parse, the concert is not returned, although
  the filter accepts it and the same search without the listing returns it.
\<close>

theorem malformed_event_loses_the_others:
  "parse_event_datetime (reference_lib (answers (search_response [concert_a, concert_bad])))
        concert_bad = Inl ValueError
   \<and> event_falls_within_time_ranges
        (reference_lib (answers (search_response [concert_a, concert_bad])))
        concert_a two_ranges = Inr True
   \<and> extract_event_details (reference_lib (answers (search_response [concert_a, concert_bad])))
        concert_a
      = Inr (bare_details ''A'' ''2026-01-01T10:30:00+00:00'' ''2026-01-01T11:30:00+00:00'')
   \<and> fst (get_concerts_in_time_ranges
              (reference_lib (answers (search_response [concert_a, concert_bad])))
              ''Toronto'' ''ON'' two_ranges None) = Inr []
   \<and> fst (get_concerts_in_time_ranges
              (reference_lib (answers (search_response [concert_a])))
              ''Toronto'' ''ON'' two_ranges None)
      = Inr [bare_details ''A'' ''2026-01-01T10:30:00+00:00'' ''2026-01-01T11:30:00+00:00'']"
  by (simp add: parse_bad falls_a extract_a search_a_bad search_a_alone)

subsection \<open>The exposed concert tool\<close>

lemma get_concerts_requests:
  "\<exists>rqs. requests_of (snd (get_concerts_in_time_ranges L city state_code rs genre)) = rqs
     \<and> length rqs \<le> 1
     \<and> (\<forall>rq \<in> set rqs. \<exists>qs qe. rq = concert_request L city state_code qs qe genre)"
proof (cases "rs = []")
  case True
  then show ?thesis by (simp add: get_concerts_in_time_ranges_def)
next
  case False
  show ?thesis
  proof (cases "py_min (map fst rs)")
    case (Inl e)
    then show ?thesis using False by (simp add: get_concerts_in_time_ranges_def)
  next
    case qs: (Inr qs)
    show ?thesis
    proof (cases "py_max (map snd rs)")
      case (Inl e)
      then show ?thesis using False qs by (simp add: get_concerts_in_time_ranges_def)
    next
      case qe: (Inr qe)
      show ?thesis
        using get_concerts_cases [OF qs qe, of L city state_code genre]
        by (auto split: sum.splits)
    qed
  qed
qed

text \<open>
  C10. Whatever the two time arguments are, every request the exposed tool sends asks for
  the city \<^verbatim>\<open>Toronto\<close> and the state code \<^verbatim>\<open>ON\<close>, and it sends at most one.
  When both arguments are accepted by \<^verbatim>\<open>fromisoformat\<close>, the tool is the search
  for \<^verbatim>\<open>Toronto\<close>, \<^verbatim>\<open>ON\<close> with the one range made of the two parsed values
  and no genre; the tool has no parameter for the city or the state.
\<close>

theorem tool_fixed_to_toronto:
  "length (requests_of (snd (e100_h100_get_ticketmaster_concerts L start_time end_time))) \<le> 1
   \<and> (\<forall>rq \<in> set (requests_of (snd (e100_h100_get_ticketmaster_concerts L start_time end_time))).
         \<exists>ps. req_params rq = Some ps
            \<and> map_of ps ''city'' = Some (JStr ''Toronto'')
            \<and> map_of ps ''stateCode'' = Some (JStr ''ON''))
   \<and> (fromisoformat L (replace_Z start_time) = Some start_dt
        \<and> fromisoformat L (replace_Z end_time) = Some end_dt
      \<longrightarrow> e100_h100_get_ticketmaster_concerts L start_time end_time
          = get_concerts_in_time_ranges L ''Toronto'' ''ON'' [(start_dt, end_dt)] None)"
proof -
  have tool: "e100_h100_get_ticketmaster_concerts L start_time end_time
      = (case fromisoformat L (replace_Z start_time) of
           None \<Rightarrow> (Inl ValueError, [])
         | Some a \<Rightarrow>
           (case fromisoformat L (replace_Z end_time) of
              None \<Rightarrow> (Inl ValueError, [])
            | Some b \<Rightarrow> get_concerts_in_time_ranges L ''Toronto'' ''ON'' [(a, b)] None))"
    by (simp add: e100_h100_get_ticketmaster_concerts_def get_concerts_def parse_iso_def
        split: option.splits)
  have rq: "\<exists>ps. req_params (concert_request L ''Toronto'' ''ON'' qs qe None) = Some ps
            \<and> map_of ps ''city'' = Some (JStr ''Toronto'')
            \<and> map_of ps ''stateCode'' = Some (JStr ''ON'')" for qs qe
    using concert_params_window [of L "''Toronto''" "''ON''" qs qe None]
    by (simp add: concert_request_def)
  have search: "length (requests_of (snd (get_concerts_in_time_ranges L ''Toronto'' ''ON'' rs None))) \<le> 1
     \<and> (\<forall>rq \<in> set (requests_of (snd (get_concerts_in_time_ranges L ''Toronto'' ''ON'' rs None))).
         \<exists>ps. req_params rq = Some ps
            \<and> map_of ps ''city'' = Some (JStr ''Toronto'')
            \<and> map_of ps ''stateCode'' = Some (JStr ''ON''))" for rs
    using get_concerts_requests [of L "''Toronto''" "''ON''" rs None] rq by auto
  show ?thesis
  proof (cases "fromisoformat L (replace_Z start_time)")
    case None
    then show ?thesis by (simp add: tool)
  next
    case a: (Some a)
    show ?thesis
    proof (cases "fromisoformat L (replace_Z end_time)")
      case None
      then show ?thesis using a by (simp add: tool)
    next
      case b: (Some b)
      show ?thesis
        using search [of "[(a, b)]"] a b by (auto simp: tool)
    qed
  qed
qed


lemma falls_a_single:
  "event_falls_within_time_ranges (reference_lib srv) concert_a [(jan1 10 0, jan5 20 0)] = Inr True"
  by (simp add: event_falls_within_time_ranges_def parse_a range_defs)

lemma tool_arguments:
  "fromisoformat (reference_lib srv) (replace_Z ''2026-01-01T10:00:00Z'') = Some (jan1 10 0)
   \<and> fromisoformat (reference_lib srv) (replace_Z ''2026-01-05T20:00:00Z'') = Some (jan5 20 0)
   \<and> fromisoformat (reference_lib srv) (replace_Z ''tomorrow'') = None"
  by (simp add: replace_Z_def ref_defs utc_def jan1_def jan5_def)

theorem tool_fixed_to_toronto_witness:
  "fromisoformat (reference_lib (answers (search_response [concert_a])))
       (replace_Z ''2026-01-01T10:00:00Z'') = Some (jan1 10 0)
   \<and> fromisoformat (reference_lib (answers (search_response [concert_a])))
       (replace_Z ''2026-01-05T20:00:00Z'') = Some (jan5 20 0)
   \<and> e100_h100_get_ticketmaster_concerts (reference_lib (answers (search_response [concert_a])))
        ''2026-01-01T10:00:00Z'' ''2026-01-05T20:00:00Z''
      = (Inr [bare_details ''A'' ''2026-01-01T10:30:00+00:00'' ''2026-01-01T11:30:00+00:00''],
         [Sent (concert_request (reference_lib (answers (search_response [concert_a])))
                  ''Toronto'' ''ON'' (jan1 10 0) (jan5 20 0) None)])
   \<and> map_of (concert_params (reference_lib (answers (search_response [concert_a])))
                ''Toronto'' ''ON'' (jan1 10 0) (jan5 20 0) None) ''city''
      = Some (JStr ''Toronto'')"
proof -
  let ?L = "reference_lib (answers (search_response [concert_a]))"
  note args = tool_arguments [of "answers (search_response [concert_a])"]
  have single: "py_min (map fst [(jan1 10 0, jan5 20 0)]) = Inr (jan1 10 0)"
    "py_max (map snd [(jan1 10 0, jan5 20 0)]) = Inr (jan5 20 0)"
    by (simp_all add: py_min_def py_max_def)
  have search: "get_concerts_in_time_ranges ?L ''Toronto'' ''ON'' [(jan1 10 0, jan5 20 0)] None
      = (Inr [bare_details ''A'' ''2026-01-01T10:30:00+00:00'' ''2026-01-01T11:30:00+00:00''],
         [Sent (concert_request ?L ''Toronto'' ''ON'' (jan1 10 0) (jan5 20 0) None)])"
    by (simp add: get_concerts_cases [OF single] read_json_answers events_of_search_response
        falls_a_single extract_a)
  from tool_fixed_to_toronto
    [of ?L "''2026-01-01T10:00:00Z''" "''2026-01-05T20:00:00Z''" "jan1 10 0" "jan5 20 0"]
  have "e100_h100_get_ticketmaster_concerts ?L ''2026-01-01T10:00:00Z'' ''2026-01-05T20:00:00Z''
      = get_concerts_in_time_ranges ?L ''Toronto'' ''ON'' [(jan1 10 0, jan5 20 0)] None"
    using args by simp
  then show ?thesis
    using args search concert_params_window [of ?L "''Toronto''" "''ON''" "jan1 10 0" "jan5 20 0" None]
    by simp
qed

subsection \<open>The event detail extractor\<close>

text \<open>What each block of the extractor writes, and what it leaves alone.\<close>

lemma classification_fields_keeps:
  assumes "classification_fields event d = Inr d'"
    and "k \<noteq> ''category''" and "k \<noteq> ''genre''" and "k \<noteq> ''subgenre''"
  shows "map_of d' k = map_of d k"
  using assms
  by (auto simp: classification_fields_def bindE_Inr_iff update_conv' split: if_splits)

lemma price_fields_keeps:
  assumes "price_fields event d = Inr d'"
    and "k \<noteq> ''price_min''" and "k \<noteq> ''price_max''" and "k \<noteq> ''currency''"
  shows "map_of d' k = map_of d k"
  using assms
  by (auto simp: price_fields_def bindE_Inr_iff update_conv' split: if_splits)

lemma sale_fields_keeps:
  assumes "sale_fields event d = Inr d'"
    and "k \<noteq> ''onsale_start''" and "k \<noteq> ''onsale_end''" and "k \<noteq> ''sale_status''"
  shows "map_of d' k = map_of d k"
  using assms
  by (auto simp: sale_fields_def bindE_Inr_iff update_conv')

lemma price_fields_absent:
  assumes "price_fields event d = Inr d'"
    and "py_get event ''priceRanges'' (JList []) = Inr pr" and "\<not> py_truthy pr"
  shows "map_of d' ''price_min'' = Some (JStr ''N/A'')
       \<and> map_of d' ''price_max'' = Some (JStr ''N/A'')
       \<and> map_of d' ''currency'' = Some (JStr ''N/A'')"
  using assms
  by (auto simp: price_fields_def bindE_Inr_iff update_conv')

lemma price_fields_no_currency:
  assumes "price_fields event d = Inr d'"
    and "py_get event ''priceRanges'' (JList []) = Inr (JList (JObj entry # others))"
    and "map_of entry ''currency'' = None"
  shows "map_of d' ''currency'' = Some (JStr ''USD'')"
  using assms
  by (auto simp: price_fields_def bindE_Inr_iff update_conv')

lemma venue_fields_absent:
  assumes "venue_fields event d = Inr d'"
    and "py_contains ''_embedded'' event = Inr False
         \<or> (\<exists>emb. py_getitem event ''_embedded'' = Inr emb \<and> py_contains ''venues'' emb = Inr False)"
  shows "map_of d' ''venue_name'' = Some (JStr ''N/A'')
       \<and> map_of d' ''venue_address'' = Some (JStr ''N/A'')"
  using assms
  by (auto simp: venue_fields_def bindE_Inr_iff update_conv' split: if_splits)

lemma venue_fields_present:
  assumes "venue_fields (JObj kvs) d = Inr d'"
    and "map_of kvs ''_embedded'' = Some (JObj em)" and "map_of em ''venues'' = Some v"
  shows "\<exists>venue. py_first v = Inr venue"
proof -
  have c: "py_contains ''_embedded'' (JObj kvs) = Inr True" "py_contains ''venues'' (JObj em) = Inr True"
    using getitem_contains [of "JObj kvs" "''_embedded''" "JObj em"]
      getitem_contains [of "JObj em" "''venues''" v] assms(2,3) by simp_all
  show ?thesis
    using assms c by (auto simp: venue_fields_def bindE_Inr_iff)
qed

lemma venue_fields_empty:
  assumes "map_of kvs ''_embedded'' = Some (JObj em)" and "map_of em ''venues'' = Some (JList [])"
  shows "venue_fields (JObj kvs) d = Inl IndexError"
proof -
  have c: "py_contains ''_embedded'' (JObj kvs) = Inr True" "py_contains ''venues'' (JObj em) = Inr True"
    using getitem_contains [of "JObj kvs" "''_embedded''" "JObj em"]
      getitem_contains [of "JObj em" "''venues''" "JList []"] assms by simp_all
  show ?thesis
    using assms c by (simp add: venue_fields_def)
qed

text \<open>A successful extraction went through the four blocks in turn.\<close>

lemma extract_Inr_blocks:
  assumes "extract_event_details L event = Inr details"
  shows "\<exists>d0 d1 d2 d3 d4. venue_fields event d0 = Inr d1
           \<and> classification_fields event d1 = Inr d2
           \<and> price_fields event d2 = Inr d3
           \<and> sale_fields event d3 = Inr d4
           \<and> details = JObj d4"
proof -
  from assms obtain d0 d1 d2 d3 d4 where "venue_fields event d0 = Inr d1"
    "classification_fields event d1 = Inr d2" "price_fields event d2 = Inr d3"
    "sale_fields event d3 = Inr d4" "details = JObj d4"
    by (auto simp: extract_event_details_def bindE_Inr_iff Let_def)
  then show ?thesis by blast
qed

lemma extract_priced:
  "extract_event_details (reference_lib srv) concert_priced
     = Inr (JObj [(''name'', JStr ''P''), (''url'', JStr ''N/A''),
           (''concert_start'', JStr ''2026-01-01T10:30:00+00:00''),
           (''concert_end'', JStr ''2026-01-01T13:30:00+00:00''),
           (''venue_name'', JStr ''N/A''), (''venue_address'', JStr ''N/A''),
           (''category'', JStr ''N/A''), (''genre'', JStr ''N/A''), (''subgenre'', JStr ''N/A''),
           (''price_min'', JInt 40), (''price_max'', JInt 95),
           (''currency'', JStr ''USD''),
           (''onsale_start'', JStr ''N/A''), (''onsale_end'', JStr ''N/A''),
           (''sale_status'', JBool False)])"
  by (simp add: extract_defs parse_defs Let_def ref_defs concert_priced_def)

lemma parse_no_venues:
  "parse_event_datetime (reference_lib srv) concert_no_venues
     = Inr (Some (jan1 10 30), Some (jan1 13 30))"
  by (simp add: parse_defs ref_defs concert_no_venues_def utc_def jan1_def)

text \<open>
  C8. In the details extracted from an event whose \<^verbatim>\<open>priceRanges\<close> is absent or
  empty, \<^verbatim>\<open>price_min\<close>, \<^verbatim>\<open>price_max\<close> and \<^verbatim>\<open>currency\<close> are all
  \<^verbatim>\<open>N/A\<close>. In the details extracted from an event whose first price range is an
  object without a \<^verbatim>\<open>currency\<close>, the currency is \<^verbatim>\<open>USD\<close>.
\<close>

theorem price_sentinels:
  assumes "extract_event_details L event = Inr details"
  shows "(py_get event ''priceRanges'' (JList []) = Inr price_ranges \<and> \<not> py_truthy price_ranges
          \<longrightarrow> py_get details ''price_min'' JNull = Inr (JStr ''N/A'')
            \<and> py_get details ''price_max'' JNull = Inr (JStr ''N/A'')
            \<and> py_get details ''currency'' JNull = Inr (JStr ''N/A''))
       \<and> (py_get event ''priceRanges'' (JList []) = Inr (JList (JObj entry # others))
            \<and> map_of entry ''currency'' = None
          \<longrightarrow> py_get details ''currency'' JNull = Inr (JStr ''USD''))"
proof -
  from extract_Inr_blocks [OF assms] obtain d2 d3 d4 where
    p: "price_fields event d2 = Inr d3" and s: "sale_fields event d3 = Inr d4"
    and d: "details = JObj d4"
    by blast
  have keep: "map_of d4 ''price_min'' = map_of d3 ''price_min''"
    "map_of d4 ''price_max'' = map_of d3 ''price_max''"
    "map_of d4 ''currency'' = map_of d3 ''currency''"
    using sale_fields_keeps [OF s] by simp_all
  show ?thesis
  proof (intro conjI impI)
    assume h: "py_get event ''priceRanges'' (JList []) = Inr price_ranges \<and> \<not> py_truthy price_ranges"
    then have "map_of d3 ''price_min'' = Some (JStr ''N/A'')
       \<and> map_of d3 ''price_max'' = Some (JStr ''N/A'')
       \<and> map_of d3 ''currency'' = Some (JStr ''N/A'')"
      using price_fields_absent [OF p, of price_ranges] by simp
    then show "py_get details ''price_min'' JNull = Inr (JStr ''N/A'')"
      and "py_get details ''price_max'' JNull = Inr (JStr ''N/A'')"
      and "py_get details ''currency'' JNull = Inr (JStr ''N/A'')"
      using keep by (simp_all add: d)
  next
    assume h: "py_get event ''priceRanges'' (JList []) = Inr (JList (JObj entry # others))
            \<and> map_of entry ''currency'' = None"
    then have "map_of d3 ''currency'' = Some (JStr ''USD'')"
      using price_fields_no_currency [OF p, of entry others] by simp
    then show "py_get details ''currency'' JNull = Inr (JStr ''USD'')"
      using keep by (simp add: d)
  qed
qed

theorem price_sentinels_witness:
  "extract_event_details (reference_lib (answers JNull)) concert_a
     = Inr (bare_details ''A'' ''2026-01-01T10:30:00+00:00'' ''2026-01-01T11:30:00+00:00'')
   \<and> py_get concert_a ''priceRanges'' (JList []) = Inr (JList [])
   \<and> py_get (bare_details ''A'' ''2026-01-01T10:30:00+00:00'' ''2026-01-01T11:30:00+00:00'')
        ''price_min'' JNull = Inr (JStr ''N/A'')
   \<and> py_get (bare_details ''A'' ''2026-01-01T10:30:00+00:00'' ''2026-01-01T11:30:00+00:00'')
        ''price_max'' JNull = Inr (JStr ''N/A'')
   \<and> py_get (bare_details ''A'' ''2026-01-01T10:30:00+00:00'' ''2026-01-01T11:30:00+00:00'')
        ''currency'' JNull = Inr (JStr ''N/A'')
   \<and> py_get concert_priced ''priceRanges'' (JList [])
        = Inr (JList [JObj [(''min'', JInt 40), (''max'', JInt 95)]])
   \<and> bindE (extract_event_details (reference_lib (answers JNull)) concert_priced)
        (\<lambda>details. py_get details ''currency'' JNull) = Inr (JStr ''USD'')
   \<and> bindE (extract_event_details (reference_lib (answers JNull)) concert_priced)
        (\<lambda>details. py_get details ''price_min'' JNull) = Inr (JInt 40)"
proof -
  let ?L = "reference_lib (answers JNull)"
  let ?da = "bare_details ''A'' ''2026-01-01T10:30:00+00:00'' ''2026-01-01T11:30:00+00:00''"
  note ea = extract_a [of "answers JNull"]
  note ep = extract_priced [of "answers JNull"]
  have pa: "py_get concert_a ''priceRanges'' (JList []) = Inr (JList [])"
    by (simp add: concert_a_def concert_def)
  have pp: "py_get concert_priced ''priceRanges'' (JList [])
        = Inr (JList [JObj [(''min'', JInt 40), (''max'', JInt 95)]])"
    by (simp add: concert_priced_def)
  have 1: "py_get ?da ''price_min'' JNull = Inr (JStr ''N/A'')
     \<and> py_get ?da ''price_max'' JNull = Inr (JStr ''N/A'')
     \<and> py_get ?da ''currency'' JNull = Inr (JStr ''N/A'')"
    using price_sentinels [OF ea, of "JList []" undefined undefined] pa by simp
  obtain dp where dp: "extract_event_details ?L concert_priced = Inr dp"
    using ep by simp
  have 2: "py_get dp ''currency'' JNull = Inr (JStr ''USD'')"
    using price_sentinels [OF dp, of undefined "[(''min'', JInt 40), (''max'', JInt 95)]" "[]"] pp
    by simp
  have 3: "py_get dp ''price_min'' JNull = Inr (JInt 40)"
    using dp ep by auto
  show ?thesis
    using ea pa pp 1 2 3 dp by simp
qed

text \<open>
  C9. The extractor indexes the first venue whenever \<^verbatim>\<open>_embedded\<close> has the key
  \<^verbatim>\<open>venues\<close>. For an event (an object whose dates parse) with an empty list of
  venues the extraction raises \<^verbatim>\<open>IndexError\<close>. The sentinel branch is the one
  taken when \<^verbatim>\<open>_embedded\<close> or its key \<^verbatim>\<open>venues\<close> is absent; a successful
  extraction from an event that has the key found a first element under it.
\<close>

theorem empty_venues_index_error:
  "(parse_event_datetime L (JObj kvs) = Inr parsed
      \<and> map_of kvs ''_embedded'' = Some (JObj em) \<and> map_of em ''venues'' = Some (JList [])
    \<longrightarrow> extract_event_details L (JObj kvs) = Inl IndexError)
   \<and> (extract_event_details L event = Inr details
        \<and> (py_contains ''_embedded'' event = Inr False
             \<or> (\<exists>emb. py_getitem event ''_embedded'' = Inr emb
                        \<and> py_contains ''venues'' emb = Inr False))
    \<longrightarrow> py_get details ''venue_name'' JNull = Inr (JStr ''N/A'')
      \<and> py_get details ''venue_address'' JNull = Inr (JStr ''N/A''))
   \<and> (extract_event_details L (JObj kvs) = Inr details
        \<and> map_of kvs ''_embedded'' = Some (JObj em) \<and> map_of em ''venues'' = Some venues
    \<longrightarrow> (\<exists>venue. py_first venues = Inr venue))"
proof (intro conjI impI)
  assume h: "parse_event_datetime L (JObj kvs) = Inr parsed
      \<and> map_of kvs ''_embedded'' = Some (JObj em) \<and> map_of em ''venues'' = Some (JList [])"
  obtain a b where ab: "parsed = (a, b)" by (cases parsed)
  have "venue_fields (JObj kvs) d = Inl IndexError" for d
    using venue_fields_empty [of kvs em d] h by simp
  then show "extract_event_details L (JObj kvs) = Inl IndexError"
    using h ab by (simp add: extract_event_details_def Let_def)
next
  assume h: "extract_event_details L event = Inr details
        \<and> (py_contains ''_embedded'' event = Inr False
             \<or> (\<exists>emb. py_getitem event ''_embedded'' = Inr emb
                        \<and> py_contains ''venues'' emb = Inr False))"
  then obtain d0 d1 d2 d3 d4 where v: "venue_fields event d0 = Inr d1"
    and c: "classification_fields event d1 = Inr d2"
    and p: "price_fields event d2 = Inr d3"
    and s: "sale_fields event d3 = Inr d4" and d: "details = JObj d4"
    using extract_Inr_blocks [of L event details] by blast
  have "map_of d1 ''venue_name'' = Some (JStr ''N/A'')
       \<and> map_of d1 ''venue_address'' = Some (JStr ''N/A'')"
    using venue_fields_absent [OF v] h by simp
  moreover have "map_of d4 ''venue_name'' = map_of d1 ''venue_name''"
    "map_of d4 ''venue_address'' = map_of d1 ''venue_address''"
    using classification_fields_keeps [OF c] price_fields_keeps [OF p] sale_fields_keeps [OF s]
    by simp_all
  ultimately show "py_get details ''venue_name'' JNull = Inr (JStr ''N/A'')"
    and "py_get details ''venue_address'' JNull = Inr (JStr ''N/A'')"
    by (simp_all add: d)
next
  assume h: "extract_event_details L (JObj kvs) = Inr details
        \<and> map_of kvs ''_embedded'' = Some (JObj em) \<and> map_of em ''venues'' = Some venues"
  then obtain d0 d1 where "venue_fields (JObj kvs) d0 = Inr d1"
    using extract_Inr_blocks [of L "JObj kvs" details] by blast
  then show "\<exists>venue. py_first venues = Inr venue"
    using venue_fields_present [of kvs d0 d1 em venues] h by simp
qed

theorem empty_venues_index_error_witness:
  "parse_event_datetime (reference_lib (answers JNull)) concert_no_venues
     = Inr (Some (jan1 10 30), Some (jan1 13 30))
   \<and> py_getitem concert_no_venues ''_embedded'' = Inr (JObj [(''venues'', JList [])])
   \<and> extract_event_details (reference_lib (answers JNull)) concert_no_venues = Inl IndexError
   \<and> py_contains ''_embedded'' concert_a = Inr False
   \<and> py_get (bare_details ''A'' ''2026-01-01T10:30:00+00:00'' ''2026-01-01T11:30:00+00:00'')
        ''venue_name'' JNull = Inr (JStr ''N/A'')"
proof -
  let ?L = "reference_lib (answers JNull)"
  let ?kvs = "[(''name'', JStr ''V''),
           (''dates'', JObj [(''start'', JObj [(''localDate'', JStr ''2026-01-01''),
                                               (''localTime'', JStr ''10:30:00'')])]),
           (''_embedded'', JObj [(''venues'', JList [])])]"
  have V: "concert_no_venues = JObj ?kvs" by (simp add: concert_no_venues_def)
  note pv = parse_no_venues [of "answers JNull"]
  have 1: "extract_event_details ?L concert_no_venues = Inl IndexError"
    using empty_venues_index_error
      [of ?L ?kvs "(Some (jan1 10 30), Some (jan1 13 30))" "[(''venues'', JList [])]"
          undefined undefined undefined] pv
    by (simp add: V)
  have na: "py_contains ''_embedded'' concert_a = Inr False"
    by (simp add: concert_a_def concert_def)
  have 2: "py_get (bare_details ''A'' ''2026-01-01T10:30:00+00:00'' ''2026-01-01T11:30:00+00:00'')
        ''venue_name'' JNull = Inr (JStr ''N/A'')"
    using empty_venues_index_error
      [of ?L "[]" undefined undefined concert_a
          "bare_details ''A'' ''2026-01-01T10:30:00+00:00'' ''2026-01-01T11:30:00+00:00''" undefined]
      extract_a [of "answers JNull"] na
    by simp
  show ?thesis using pv 1 na 2 by (simp add: V)
qed

subsection \<open>The calendar adapters\<close>

lemma format_Inr_fields:
  assumes "format_event_to_document L event = Inr doc"
  shows "py_get doc ''id'' JNull = py_get event ''id'' JNull
       \<and> py_get doc ''title'' JNull = py_get event ''summary'' (JStr ''(No title)'')
       \<and> py_get doc ''url'' JNull = py_get event ''htmlLink'' (JStr [])"
  using assms
  by (auto simp: format_event_to_document_def bindE_Inr_iff Let_def)

lemma format_stored:
  "doc_field ''id'' (format_event_to_document (reference_lib srv) stored_event) = Inr (JStr ''ev1'')
   \<and> doc_field ''title'' (format_event_to_document (reference_lib srv) stored_event)
       = Inr (JStr ''Standup'')
   \<and> doc_field ''url'' (format_event_to_document (reference_lib srv) stored_event)
       = Inr (JStr ''https://calendar.example/ev1'')
   \<and> doc_field ''attendees_count'' (format_event_to_document (reference_lib srv) stored_event)
       = Inr (JInt 1)"
  by (simp add: doc_field_def format_defs ref_defs stored_event_def)

lemma format_untitled:
  "doc_field ''id'' (format_event_to_document (reference_lib srv) untitled_event) = Inr (JStr ''ev2'')
   \<and> doc_field ''title'' (format_event_to_document (reference_lib srv) untitled_event)
       = Inr (JStr ''(No title)'')
   \<and> doc_field ''url'' (format_event_to_document (reference_lib srv) untitled_event)
       = Inr (JStr [])"
  by (simp add: doc_field_def format_defs ref_defs untitled_event_def)

text \<open>
  C7, as the program has it. When a calendar event is formatted, the document's
  \<^verbatim>\<open>id\<close> is the event's \<^verbatim>\<open>id\<close> (\<^verbatim>\<open>None\<close> when it has none), its
  \<^verbatim>\<open>title\<close> is the event's \<^verbatim>\<open>summary\<close> when it has one and
  \<^verbatim>\<open>(No title)\<close> otherwise, and its \<^verbatim>\<open>url\<close> is the event's
  \<^verbatim>\<open>htmlLink\<close> when it has one and the empty string otherwise.
\<close>

theorem document_identity_fields:
  assumes "format_event_to_document L event = Inr doc"
  shows "py_get doc ''id'' JNull = py_get event ''id'' JNull
       \<and> py_get doc ''title'' JNull = py_get event ''summary'' (JStr ''(No title)'')
       \<and> py_get doc ''url'' JNull = py_get event ''htmlLink'' (JStr [])"
  using assms by (rule format_Inr_fields)

theorem document_identity_fields_witness:
  "\<exists>doc. format_event_to_document (reference_lib (answers JNull)) stored_event = Inr doc
       \<and> py_get doc ''id'' JNull = Inr (JStr ''ev1'')
       \<and> py_get doc ''title'' JNull = Inr (JStr ''Standup'')
       \<and> py_get doc ''url'' JNull = Inr (JStr ''https://calendar.example/ev1'')"
proof -
  let ?L = "reference_lib (answers JNull)"
  from format_stored [of "answers JNull"] obtain doc where
    doc: "format_event_to_document ?L stored_event = Inr doc"
    by (auto simp: doc_field_def bindE_Inr_iff)
  from document_identity_fields [OF doc]
  have "py_get doc ''id'' JNull = Inr (JStr ''ev1'')
       \<and> py_get doc ''title'' JNull = Inr (JStr ''Standup'')
       \<and> py_get doc ''url'' JNull = Inr (JStr ''https://calendar.example/ev1'')"
    by (simp add: stored_event_def)
  with doc show ?thesis by blast
qed

text \<open>
  C7, as the specification has it, fails for an event without a \<^verbatim>\<open>summary\<close> or
  \<^verbatim>\<open>htmlLink\<close>: the event with only an id is formatted to the title
  \<^verbatim>\<open>(No title)\<close> and the url \<^verbatim>\<open>""\<close>, which are not the input's values.
\<close>

theorem untitled_event_title_differs:
  "doc_field ''title'' (format_event_to_document (reference_lib (answers JNull)) untitled_event)
     = Inr (JStr ''(No title)'')
   \<and> py_get untitled_event ''summary'' JNull = Inr JNull
   \<and> doc_field ''url'' (format_event_to_document (reference_lib (answers JNull)) untitled_event)
     = Inr (JStr [])
   \<and> py_get untitled_event ''htmlLink'' JNull = Inr JNull
   \<and> doc_field ''title'' (format_event_to_document (reference_lib (answers JNull)) untitled_event)
     \<noteq> py_get untitled_event ''summary'' JNull"
  using format_untitled [of "answers JNull"] by (simp add: untitled_event_def)






end
